theory Spec2Isabelle
  imports Complex_Main
begin

section \<open>Python values that occur in \<open>app.py\<close>\<close>

text \<open>
  A Python \<open>float\<close> is an IEEE 754 binary64 value. Every finite binary64 value is a
  rational number, so a finite float is carried by its exact value; the two infinities and
  the not-a-number value are separate constructors. The sign of zero is not kept: it
  plays no part in any comparison made by the program.
\<close>

datatype pyfloat = Finite rat | PosInf | NegInf | NaN

text \<open>
  The elements of the list \<open>features\<close> and the values handed to \<open>validate_inputs\<close>:
  \<open>None\<close>, a \<open>str\<close> or a \<open>float\<close>.
\<close>

datatype pyval = PyNone | PyStr string | PyFloat pyfloat

text \<open>
  \<open>value < min_val\<close> and \<open>value > max_val\<close> for a float \<open>value\<close> and an \<open>int\<close> bound.
  Python compares a float with an int by exact value; every comparison with the
  not-a-number value is false.
\<close>

fun float_lt_int :: "pyfloat \<Rightarrow> int \<Rightarrow> bool" where
  "float_lt_int (Finite r) b = (r < of_int b)"
| "float_lt_int PosInf b = False"
| "float_lt_int NegInf b = True"
| "float_lt_int NaN b = False"

fun float_gt_int :: "pyfloat \<Rightarrow> int \<Rightarrow> bool" where
  "float_gt_int (Finite r) b = (of_int b < r)"
| "float_gt_int PosInf b = True"
| "float_gt_int NegInf b = False"
| "float_gt_int NaN b = False"

text \<open>
  Membership of a float in the closed interval \<open>[lo, hi]\<close>, that is \<open>lo <= v <= hi\<close>:
  the meaning of "within its range" in the data model. No infinity and no not-a-number
  value lies in such an interval.
\<close>

fun in_range :: "pyfloat \<Rightarrow> int \<Rightarrow> int \<Rightarrow> bool" where
  "in_range (Finite r) lo hi = (of_int lo \<le> r \<and> r \<le> of_int hi)"
| "in_range PosInf lo hi = False"
| "in_range NegInf lo hi = False"
| "in_range NaN lo hi = False"

subsection \<open>The builtin \<open>float\<close> on a \<open>str\<close>\<close>

text \<open>
  \<open>float(x)\<close> is a builtin of the language, not code of the repository. The program is
  therefore modelled over an arbitrary function \<open>flt :: string \<Rightarrow> pyfloat option\<close>, where
  \<open>None\<close> stands for the \<open>ValueError\<close> that \<open>float\<close> raises. The general theorems hold for
  every such function. For the closed examples, \<open>py_float\<close> below follows the language
  reference for \<open>float\<close> on ASCII text: surrounding white space is dropped, then an optional
  sign, then \<open>inf\<close>, \<open>infinity\<close> or \<open>nan\<close> in any letter case, or a decimal number with an
  optional fraction and exponent, where single underscores may separate digits; the
  decimal value is rounded to the nearest binary64 value, ties to even. A byte outside
  ASCII makes \<open>py_float\<close> return \<open>None\<close>.
\<close>

definition is_space :: "char \<Rightarrow> bool" where
  "is_space c = (c \<in> set [CHR '' '', CHR 0x09, CHR 0x0A, CHR 0x0B, CHR 0x0C, CHR 0x0D])"

definition strip :: "string \<Rightarrow> string" where
  "strip s = rev (dropWhile is_space (rev (dropWhile is_space s)))"

definition digit_val :: "char \<Rightarrow> int option" where
  "digit_val c = map_of (zip ''0123456789'' [0, 1, 2, 3, 4, 5, 6, 7, 8, 9]) c"

definition lower_char :: "char \<Rightarrow> char" where
  "lower_char c =
     (let i = (of_char c :: nat) in if 65 \<le> i \<and> i \<le> 90 then char_of (i + 32) else c)"

text \<open>The digits that continue a digit part, after its first digit, and the rest.\<close>

fun more_digits :: "string \<Rightarrow> int list \<times> string" where
  "more_digits [] = ([], [])"
| "more_digits [c] = (case digit_val c of Some d \<Rightarrow> ([d], []) | None \<Rightarrow> ([], [c]))"
| "more_digits (c # c' # cs) =
     (case digit_val c of
        Some d \<Rightarrow> (case more_digits (c' # cs) of (ds, r) \<Rightarrow> (d # ds, r))
      | None \<Rightarrow>
          (if c = CHR ''_'' then
             (case digit_val c' of
                Some d \<Rightarrow> (case more_digits cs of (ds, r) \<Rightarrow> (d # ds, r))
              | None \<Rightarrow> ([], c # c' # cs))
           else ([], c # c' # cs)))"

definition digitpart :: "string \<Rightarrow> (int list \<times> string) option" where
  "digitpart s =
     (case s of
        [] \<Rightarrow> None
      | c # cs \<Rightarrow>
          (case digit_val c of
             None \<Rightarrow> None
           | Some d \<Rightarrow> (case more_digits cs of (ds, r) \<Rightarrow> Some (d # ds, r))))"

text \<open>A number without exponent: integer digits, fraction digits and the rest.\<close>

definition number :: "string \<Rightarrow> (int list \<times> int list \<times> string) option" where
  "number s =
     (case digitpart s of
        Some (ip, r) \<Rightarrow>
          (case r of
             [] \<Rightarrow> Some (ip, [], r)
           | c # r' \<Rightarrow>
               (if c = CHR ''.'' then
                  (case digitpart r' of
                     Some (fp, r'') \<Rightarrow> Some (ip, fp, r'')
                   | None \<Rightarrow> Some (ip, [], r'))
                else Some (ip, [], r)))
      | None \<Rightarrow>
          (case s of
             [] \<Rightarrow> None
           | c # r' \<Rightarrow>
               (if c = CHR ''.'' then
                  (case digitpart r' of
                     Some (fp, r'') \<Rightarrow> Some ([], fp, r'')
                   | None \<Rightarrow> None)
                else None)))"

definition digits_value :: "int list \<Rightarrow> int" where
  "digits_value ds = foldl (\<lambda>a d. 10 * a + d) 0 ds"

text \<open>The exponent part, which must reach the end of the text.\<close>

definition exponent :: "string \<Rightarrow> int option" where
  "exponent s =
     (case s of
        [] \<Rightarrow> Some 0
      | c # r \<Rightarrow>
          (if lower_char c = CHR ''e'' then
             (let (neg, r') =
                    (case r of
                       [] \<Rightarrow> (False, r)
                     | x # xs \<Rightarrow>
                         (if x = CHR ''-'' then (True, xs)
                          else if x = CHR ''+'' then (False, xs) else (False, r)))
              in case digitpart r' of
                   Some (ds, []) \<Rightarrow>
                     Some (if neg then - digits_value ds else digits_value ds)
                 | _ \<Rightarrow> None)
           else None))"

text \<open>
  \<open>ipow b e\<close> is \<open>b\<close> to the power \<open>e\<close> for a positive exponent and \<open>1\<close> otherwise,
  by repeated squaring.
\<close>

function ipow :: "int \<Rightarrow> int \<Rightarrow> int" where
  "ipow b e = (if e \<le> 0 then 1 else (ipow b (e div 2))\<^sup>2 * (if odd e then b else 1))"
  by pat_completeness auto
termination
  by (relation "measure (\<lambda>(b, e). nat e)") auto

declare ipow.simps [simp del]

text \<open>The number of binary digits of a positive integer.\<close>

function bit_length :: "int \<Rightarrow> nat" where
  "bit_length n = (if n \<le> 0 then 0 else Suc (bit_length (n div 2)))"
  by pat_completeness auto
termination
  by (relation "measure nat") auto

declare bit_length.simps [simp del]

text \<open>
  Rounding of the positive fraction \<open>a / b\<close> to binary64, to nearest with ties to even.
  \<open>e\<close> is the exponent of the leading bit of the fraction; the spacing of the binary64
  values around it is \<open>2 ^ s\<close>, where \<open>s\<close> is \<open>e - 52\<close> and never less than for the
  subnormal numbers; \<open>n / d\<close> is the fraction in units of that spacing, and \<open>m\<close> its
  rounding to an integer. A result of \<open>2 ^ 1024\<close> or more is infinite.
\<close>

definition round_ratio :: "int \<Rightarrow> int \<Rightarrow> pyfloat" where
  "round_ratio a b =
     (let e0 = int (bit_length a) - int (bit_length b);
          e = (if b * ipow 2 e0 \<le> a * ipow 2 (- e0) then e0 else e0 - 1);
          s = max e (- 1022) - 52;
          n = a * ipow 2 (- s);
          d = b * ipow 2 s;
          f = n div d;
          t = 2 * (n mod d);
          m = (if t < d then f else if d < t then f + 1
               else if even f then f else f + 1)
      in if ipow 2 1024 * ipow 2 (- s) \<le> m * ipow 2 s then PosInf
         else Finite (of_int (m * ipow 2 s) / of_int (ipow 2 (- s))))"

definition negate :: "pyfloat \<Rightarrow> pyfloat" where
  "negate v = (case v of Finite r \<Rightarrow> Finite (- r) | PosInf \<Rightarrow> NegInf
                 | NegInf \<Rightarrow> PosInf | NaN \<Rightarrow> NaN)"

text \<open>
  The text after the sign: the digits \<open>ip\<close> and \<open>fp\<close> with the exponent \<open>x\<close> denote
  the integer written \<open>ip fp\<close> times ten to the power \<open>x\<close> minus the number of
  fraction digits.
\<close>

definition abs_float :: "string \<Rightarrow> pyfloat option" where
  "abs_float s =
     (let w = map lower_char s in
      if w = ''inf'' \<or> w = ''infinity'' then Some PosInf
      else if w = ''nan'' then Some NaN
      else (case number s of
              None \<Rightarrow> None
            | Some (ip, fp, r) \<Rightarrow>
                (case exponent r of
                   None \<Rightarrow> None
                 | Some x \<Rightarrow>
                     (let digits = digits_value (ip @ fp);
                          x' = x - int (length fp)
                      in if digits = 0 then Some (Finite 0)
                         else Some (round_ratio (digits * ipow 10 x') (ipow 10 (- x')))))))"

definition py_float :: "string \<Rightarrow> pyfloat option" where
  "py_float s =
     (case strip s of
        [] \<Rightarrow> None
      | c # cs \<Rightarrow>
          (if c = CHR ''-'' then map_option negate (abs_float cs)
           else if c = CHR ''+'' then abs_float cs
           else abs_float (c # cs)))"

section \<open>The program\<close>

subsection \<open>What a run of \<open>main\<close> does, as a list of events\<close>

text \<open>
  The model object that \<open>pickle.load\<close> returns is opaque; the program uses it only in
  \<open>model.predict([features]).item()\<close>. A model is therefore the function from the
  feature list to the outcome of that expression: \<open>Inr\<close> of the label, or \<open>Inl\<close> of the
  text of the exception raised. A label is a crop name, a \<open>str\<close>.
\<close>

type_synonym label = string

type_synonym model = "pyval list \<Rightarrow> string + label"

text \<open>
  The calls a run makes to the user interface, the file system and the model, in order.
  \<^item> \<open>Page_header\<close>: the two \<open>st.markdown\<close> calls of the header (lines 95 and 96).
  \<^item> \<open>Load_model_file\<close>: \<open>open('lgb_model.pickle', 'rb')\<close> with \<open>pickle.load\<close>.
  \<^item> \<open>Input_form\<close>: the first column with its seven \<open>st.text_input\<close> widgets.
  \<^item> \<open>About_panel\<close>: the second column.
  \<^item> \<open>Error_box t\<close>: \<open>st.error(t)\<close>.
  \<^item> \<open>Warning_item msg\<close>: the \<open>st.markdown\<close> call that shows \<open>msg\<close> as a bullet of class
    \<open>warning\<close>.
  \<^item> \<open>Spinner\<close> and \<open>Sleep 1\<close>: \<open>st.spinner\<close> and \<open>time.sleep(1)\<close>.
  \<^item> \<open>Model_predict fs\<close>: the call \<open>model.predict([fs])\<close>.
  \<^item> \<open>Success_box t\<close>: \<open>st.success\<close> of the recommended crop \<open>t\<close>.
  \<^item> \<open>Echo xs\<close>: the \<open>st.markdown\<close> call that lists the seven texts typed by the user.
  \<^item> \<open>Uncaught e\<close>: an exception that leaves \<open>main\<close>.
\<close>

datatype event =
    Page_header
  | Load_model_file
  | Input_form
  | About_panel
  | Error_box string
  | Warning_item string
  | Spinner
  | Sleep nat
  | Model_predict "pyval list"
  | Success_box string
  | Echo "string list"
  | Uncaught string

text \<open>
  The state of the widgets in one run: whether the button was pressed, and the text of
  each of the seven fields (\<open>n\<close>, \<open>p\<close>, \<open>k\<close>, \<open>temperature\<close>, \<open>humidity\<close>, \<open>ph\<close>, \<open>rainfall\<close>
  in the source). \<open>st.text_input\<close> returns a \<open>str\<close>, empty when nothing was typed.
\<close>

record form =
  button :: bool
  txt_n :: string
  txt_p :: string
  txt_k :: string
  txt_temperature :: string
  txt_humidity :: string
  txt_ph :: string
  txt_rainfall :: string

subsection \<open>\<open>load_model\<close> and \<open>predict_crop\<close>\<close>

text \<open>
  The argument of \<open>load_model\<close> is what opening and unpickling the file does in this run:
  \<open>Inl\<close> of the text of the exception raised, or \<open>Inr\<close> of the object that \<open>pickle.load\<close>
  returns, which is \<open>None\<close> or a model. \<open>load_model\<close> returns that object as it is, and
  \<open>None\<close> after an exception.
\<close>

definition load_model :: "string + model option \<Rightarrow> event list \<times> model option" where
  "load_model artifact =
     (case artifact of
        Inr model \<Rightarrow> ([Load_model_file], model)
      | Inl e \<Rightarrow> ([Load_model_file, Error_box (''Error loading model: '' @ e)], None))"

definition predict_crop :: "model \<Rightarrow> pyval list \<Rightarrow> event list \<times> label option" where
  "predict_crop model features =
     (case model features of
        Inr predicted_crop \<Rightarrow> ([Model_predict features], Some predicted_crop)
      | Inl e \<Rightarrow>
          ([Model_predict features, Error_box (''Error making prediction: '' @ e)], None))"

subsection \<open>\<open>validate_inputs\<close>\<close>

definition input_names :: "string list" where
  "input_names = [''Nitrogen'', ''Phosphorus'', ''Potassium'', ''Temperature'',
                  ''Humidity'', ''pH Level'', ''Rainfall'']"

text \<open>\<open>value is None or value == ""\<close>\<close>

definition missing :: "pyval \<Rightarrow> bool" where
  "missing v = (v = PyNone \<or> v = PyStr [])"

definition required_message :: "string \<Rightarrow> string" where
  "required_message name = name @ '' is required''"

definition validate_inputs :: "pyval list \<Rightarrow> string list" where
  "validate_inputs inputs =
     map (\<lambda>(v, name). required_message name)
       (filter (\<lambda>(v, name). missing v) (zip inputs input_names))"

subsection \<open>The block under the button\<close>

text \<open>
  \<open>[float(x) if x else None for x in [...]]\<close>: an empty text gives \<open>None\<close> without a call
  of \<open>float\<close>; the first text on which \<open>float\<close> raises ends the comprehension with that
  \<open>ValueError\<close>, here the result \<open>None\<close>.
\<close>

fun to_features :: "(string \<Rightarrow> pyfloat option) \<Rightarrow> string list \<Rightarrow> pyval list option" where
  "to_features flt [] = Some []"
| "to_features flt (x # xs) =
     (if x \<noteq> [] then
        (case flt x of
           None \<Rightarrow> None
         | Some v \<Rightarrow> map_option (\<lambda>vs. PyFloat v # vs) (to_features flt xs))
      else map_option (\<lambda>vs. PyNone # vs) (to_features flt xs))"

definition ranges :: "(int \<times> int \<times> string) list" where
  "ranges = [(0, 140, ''Nitrogen''), (0, 140, ''Phosphorus''),
             (0, 200, ''Potassium''), (0, 50, ''Temperature''),
             (0, 100, ''Humidity''), (0, 14, ''pH''),
             (0, 300, ''Rainfall'')]"

text \<open>\<open>str\<close> of an \<open>int\<close>, as an f-string formats \<open>min_val\<close> and \<open>max_val\<close>.\<close>

definition digit_char :: "int \<Rightarrow> char" where
  "digit_char d = ''0123456789'' ! nat d"

function decimal :: "int \<Rightarrow> string" where
  "decimal i = (if i < 10 then [digit_char i] else decimal (i div 10) @ [digit_char (i mod 10)])"
  by pat_completeness auto
termination
  by (relation "measure nat") auto

declare decimal.simps [simp del]

definition str_int :: "int \<Rightarrow> string" where
  "str_int i = (if i < 0 then CHR ''-'' # decimal (- i) else decimal i)"

definition range_message :: "string \<Rightarrow> int \<Rightarrow> int \<Rightarrow> string" where
  "range_message name min_val max_val =
     name @ '' must be between '' @ str_int min_val @ '' and '' @ str_int max_val"

text \<open>
  \<open>value < min_val or value > max_val\<close>. On \<open>None\<close> or a \<open>str\<close> the comparison with an
  \<open>int\<close> raises \<open>TypeError\<close>.
\<close>

fun out_of_range :: "pyval \<Rightarrow> int \<Rightarrow> int \<Rightarrow> string + bool" where
  "out_of_range (PyFloat v) min_val max_val =
     Inr (float_lt_int v min_val \<or> float_gt_int v max_val)"
| "out_of_range PyNone min_val max_val = Inl ''TypeError''"
| "out_of_range (PyStr s) min_val max_val = Inl ''TypeError''"

text \<open>The loop over \<open>zip(features, ranges)\<close> that fills \<open>range_errors\<close>.\<close>

fun range_loop :: "(pyval \<times> int \<times> int \<times> string) list \<Rightarrow> string + string list" where
  "range_loop [] = Inr []"
| "range_loop ((v, min_val, max_val, name) # rest) =
     (case out_of_range v min_val max_val of
        Inl e \<Rightarrow> Inl e
      | Inr bad \<Rightarrow>
          (case range_loop rest of
             Inl e \<Rightarrow> Inl e
           | Inr msgs \<Rightarrow>
               Inr ((if bad then [range_message name min_val max_val] else []) @ msgs)))"

text \<open>
  \<open>str.title()\<close> on ASCII text: the first letter of every run of letters in upper case,
  the other letters of the run in lower case.
\<close>

definition is_lower :: "char \<Rightarrow> bool" where
  "is_lower c = (97 \<le> (of_char c :: nat) \<and> (of_char c :: nat) \<le> 122)"

definition is_upper :: "char \<Rightarrow> bool" where
  "is_upper c = (65 \<le> (of_char c :: nat) \<and> (of_char c :: nat) \<le> 90)"

definition upper_char :: "char \<Rightarrow> char" where
  "upper_char c = (if is_lower c then char_of ((of_char c :: nat) - 32) else c)"

fun title_from :: "bool \<Rightarrow> string \<Rightarrow> string" where
  "title_from previous_is_cased [] = []"
| "title_from previous_is_cased (c # cs) =
     (if is_lower c then
        (if previous_is_cased then c else upper_char c) # title_from True cs
      else if is_upper c then
        (if previous_is_cased then lower_char c else c) # title_from True cs
      else c # title_from False cs)"

definition title :: "string \<Rightarrow> string" where
  "title s = title_from False s"

definition raw_inputs :: "form \<Rightarrow> string list" where
  "raw_inputs f = [txt_n f, txt_p f, txt_k f, txt_temperature f, txt_humidity f,
                   txt_ph f, txt_rainfall f]"

definition fix_issues :: string where
  "fix_issues = ''Please fix the following issues:''"

definition valid_numbers :: string where
  "valid_numbers = ''Please ensure all inputs are valid numbers''"

text \<open>
  Lines 158 to 204: the body of \<open>if st.button(...)\<close>. The \<open>ValueError\<close> of the
  comprehension is caught by the \<open>except\<close> clause; a \<open>TypeError\<close> of the range loop is
  not. \<open>if prediction:\<close> holds for a label that is not \<open>None\<close> and not the empty text.
\<close>

definition submit :: "(string \<Rightarrow> pyfloat option) \<Rightarrow> model \<Rightarrow> form \<Rightarrow> event list" where
  "submit flt model f =
     (case to_features flt (raw_inputs f) of
        None \<Rightarrow> [Error_box valid_numbers]
      | Some features \<Rightarrow>
          (let validation_messages = validate_inputs features in
           if validation_messages \<noteq> [] then
             Error_box fix_issues # map Warning_item validation_messages
           else
             (case range_loop (zip features ranges) of
                Inl e \<Rightarrow> [Uncaught e]
              | Inr range_errors \<Rightarrow>
                  if range_errors \<noteq> [] then
                    Error_box fix_issues # map Warning_item range_errors
                  else
                    [Spinner, Sleep 1] @
                    (case predict_crop model features of
                       (shown, prediction) \<Rightarrow>
                         shown @
                         (case prediction of
                            None \<Rightarrow> []
                          | Some crop \<Rightarrow>
                              if crop \<noteq> [] then
                                [Success_box (title crop), Echo (raw_inputs f)]
                              else [])))))"

subsection \<open>\<open>main\<close>\<close>

definition load_failed :: string where
  "load_failed =
     ''Failed to load the model. Please check if '' @ [CHR 0x27] @ ''model.pickle'' @
     [CHR 0x27] @ '' exists.''"

definition main ::
  "(string \<Rightarrow> pyfloat option) \<Rightarrow> string + model option \<Rightarrow> form \<Rightarrow> event list" where
  "main flt artifact f =
     Page_header #
     (case load_model artifact of
        (shown, None) \<Rightarrow> shown @ [Error_box load_failed]
      | (shown, Some model) \<Rightarrow>
          shown @ [Input_form, About_panel] @
          (if button f then submit flt model f else []))"

section \<open>Reading a run\<close>

text \<open>
  The messages shown as warning bullets, the feature lists handed to the model and the
  texts of the error boxes of a run, each in order of appearance.
\<close>

fun warnings :: "event list \<Rightarrow> string list" where
  "warnings [] = []"
| "warnings (Warning_item msg # evs) = msg # warnings evs"
| "warnings (ev # evs) = warnings evs"

fun predict_calls :: "event list \<Rightarrow> pyval list list" where
  "predict_calls [] = []"
| "predict_calls (Model_predict fs # evs) = fs # predict_calls evs"
| "predict_calls (ev # evs) = predict_calls evs"


text \<open>
  The message of the range check for the field at position \<open>i\<close>, and the test the
  program makes on the value of that field.
\<close>

definition range_message_of :: "nat \<Rightarrow> string" where
  "range_message_of i = (case ranges ! i of (min_val, max_val, name) \<Rightarrow> range_message name min_val max_val)"

definition outside :: "nat \<Rightarrow> pyfloat \<Rightarrow> bool" where
  "outside i v = (case ranges ! i of (min_val, max_val, name) \<Rightarrow> float_lt_int v min_val \<or> float_gt_int v max_val)"

text \<open>
  The value of the field at position \<open>i\<close> lies within the range of that field:
  \<open>min <= v <= max\<close>.
\<close>

definition inside :: "nat \<Rightarrow> pyfloat \<Rightarrow> bool" where
  "inside i v = (case ranges ! i of (min_val, max_val, name) \<Rightarrow> in_range v min_val max_val)"



text \<open>
  Inputs for the closed examples: a model that answers every call with the same label, a
  model that raises on every call, and, last, the form of the specification's example,
  with the button pressed.
\<close>

definition constant_model :: "label \<Rightarrow> model" where
  "constant_model crop features = Inr crop"

definition failing_model :: "string \<Rightarrow> model" where
  "failing_model e features = Inl e"


definition sample_form :: form where
  "sample_form =
     \<lparr>button = True, txt_n = ''90'', txt_p = ''42'', txt_k = ''43'',
      txt_temperature = ''20.8'', txt_humidity = ''82'', txt_ph = ''6.5'',
      txt_rainfall = ''202.9''\<rparr>"

section \<open>Auxiliary facts\<close>

lemma warnings_map_Warning_item: "warnings (map Warning_item ms) = ms"
  by (induction ms) simp_all

lemma predict_calls_map_Warning_item: "predict_calls (map Warning_item ms) = []"
  by (induction ms) simp_all

lemma count_list_distinct: "distinct xs \<Longrightarrow> x \<in> set xs \<Longrightarrow> count_list xs x = 1"
  by (induction xs) (auto simp: count_list_0_iff)

lemma zip_conv_nth:
  "zip xs ys = map (\<lambda>i. (xs ! i, ys ! i)) [0 ..< min (length xs) (length ys)]"
  by (rule nth_equalityI) simp_all

lemma map_filter_zip:
  "map g (filter P (zip xs ys)) =
   map (\<lambda>i. g (xs ! i, ys ! i))
     (filter (\<lambda>i. P (xs ! i, ys ! i)) [0 ..< min (length xs) (length ys)])"
  by (subst zip_conv_nth) (simp add: filter_map o_def)

lemma to_features_None_iff:
  "to_features flt xs = None \<longleftrightarrow> (\<exists>x\<in>set xs. x \<noteq> [] \<and> flt x = None)"
  by (induction xs) (auto split: option.splits)

lemma to_features_Some:
  "(\<forall>x\<in>set xs. x \<noteq> [] \<longrightarrow> flt x \<noteq> None) \<Longrightarrow>
   to_features flt xs = Some (map (\<lambda>x. if x = [] then PyNone else PyFloat (the (flt x))) xs)"
  by (induction xs) (auto split: option.splits)

lemma length_input_names: "length input_names = 7"
  by (simp add: input_names_def)

lemma validate_inputs_nth:
  "validate_inputs inputs =
   map (\<lambda>i. required_message (input_names ! i))
     (filter (\<lambda>i. missing (inputs ! i)) [0 ..< min (length inputs) 7])"
  unfolding validate_inputs_def by (subst map_filter_zip) (simp add: length_input_names)

lemma required_messages_distinct: "distinct (map required_message input_names)"
  by (simp add: required_message_def input_names_def)

lemma required_message_inj: "inj_on (\<lambda>i. required_message (input_names ! i)) {0 ..< 7}"
proof (rule inj_onI)
  fix i j :: nat
  assume i: "i \<in> {0 ..< 7}" and j: "j \<in> {0 ..< 7}"
    and eq: "required_message (input_names ! i) = required_message (input_names ! j)"
  define ms where "ms = map required_message input_names"
  have len: "i < length ms" "j < length ms"
    using i j by (simp_all add: ms_def length_input_names)
  have "ms ! i = ms ! j"
    using eq i j by (simp add: ms_def length_input_names)
  moreover have "distinct ms"
    unfolding ms_def by (rule required_messages_distinct)
  ultimately show "i = j"
    using len nth_eq_iff_index_eq by blast
qed

lemma range_loop_floats:
  "range_loop (zip (map PyFloat vs) rs) =
   Inr (map (\<lambda>(v, lo, hi, name). range_message name lo hi)
          (filter (\<lambda>(v, lo, hi, name). float_lt_int v lo \<or> float_gt_int v hi) (zip vs rs)))"
proof (induction vs arbitrary: rs)
  case Nil
  show ?case by simp
next
  case (Cons v vs)
  show ?case
  proof (cases rs)
    case Nil
    then show ?thesis by simp
  next
    case (Cons r rs')
    obtain lo hi name where r: "r = (lo, hi, name)" by (cases r)
    show ?thesis using Cons.IH [of rs'] by (simp add: Cons r)
  qed
qed

lemma range_messages:
  "map (\<lambda>(min_val, max_val, name). range_message name min_val max_val) ranges =
   [''Nitrogen must be between 0 and 140'', ''Phosphorus must be between 0 and 140'',
    ''Potassium must be between 0 and 200'', ''Temperature must be between 0 and 50'',
    ''Humidity must be between 0 and 100'', ''pH must be between 0 and 14'',
    ''Rainfall must be between 0 and 300'']"
  by (simp add: ranges_def range_message_def str_int_def decimal.simps digit_char_def)

lemma length_ranges: "length ranges = 7"
  by (simp add: ranges_def)

lemma length_raw_inputs: "length (raw_inputs f) = 7"
  by (simp add: raw_inputs_def)

lemma to_features_all_present:
  "\<forall>x\<in>set xs. x \<noteq> [] \<and> flt x \<noteq> None \<Longrightarrow>
   to_features flt xs = Some (map (\<lambda>x. PyFloat (the (flt x))) xs)"
  by (induction xs) auto

lemma to_features_nth:
  "to_features flt xs = Some fs \<Longrightarrow>
   fs = map (\<lambda>x. if x = [] then PyNone else PyFloat (the (flt x))) xs"
  by (induction xs arbitrary: fs) (auto split: option.splits if_splits)

lemma validate_inputs_floats: "validate_inputs (map PyFloat vs) = []"
  by (simp add: validate_inputs_nth missing_def)

lemma range_loop_nth:
  "length vs = 7 \<Longrightarrow>
   range_loop (zip (map PyFloat vs) ranges) =
   Inr (map range_message_of (filter (\<lambda>i. outside i (vs ! i)) [0 ..< 7]))"
  unfolding range_loop_floats
  by (subst map_filter_zip)
     (simp add: length_ranges range_message_of_def outside_def case_prod_unfold)

lemma range_message_of_table:
  "map range_message_of [0 ..< 7] =
   [''Nitrogen must be between 0 and 140'', ''Phosphorus must be between 0 and 140'',
    ''Potassium must be between 0 and 200'', ''Temperature must be between 0 and 50'',
    ''Humidity must be between 0 and 100'', ''pH must be between 0 and 14'',
    ''Rainfall must be between 0 and 300'']"
proof -
  have "map range_message_of [0 ..< 7] =
        map (\<lambda>(min_val, max_val, name). range_message name min_val max_val) ranges"
    by (rule nth_equalityI) (simp_all add: length_ranges range_message_of_def)
  then show ?thesis by (simp only: range_messages)
qed

lemma range_message_of_inj: "inj_on range_message_of {0 ..< 7}"
proof -
  have "distinct (map (take 2) (map range_message_of [0 ..< 7]))"
    unfolding range_message_of_table by simp
  then have "distinct (map range_message_of [0 ..< 7])"
    using distinct_map by blast
  then have "inj_on range_message_of (set [0 ..< 7])"
    using distinct_map by blast
  then show ?thesis
    by (simp only: set_upt)
qed

lemma count_list_map_filter:
  assumes "inj_on g {0 ..< n}" and "i < n"
  shows "count_list (map g (filter P [0 ..< n])) (g i) = (if P i then 1 else 0)"
proof (cases "P i")
  case True
  have "set (filter P [0 ..< n]) \<subseteq> {0 ..< n}"
    by auto
  then have "inj_on g (set (filter P [0 ..< n]))"
    using assms(1) by (rule inj_on_subset [rotated])
  then have "distinct (map g (filter P [0 ..< n]))"
    by (simp add: distinct_map)
  moreover have "g i \<in> set (map g (filter P [0 ..< n]))"
    using True assms(2) by auto
  ultimately show ?thesis
    using True by (simp add: count_list_distinct)
next
  case False
  have "g i \<notin> set (map g (filter P [0 ..< n]))"
  proof
    assume "g i \<in> set (map g (filter P [0 ..< n]))"
    then obtain j where j: "j < n" "P j" "g j = g i" by auto
    with assms have "j = i" by (simp add: inj_on_def)
    with j False show False by simp
  qed
  then show ?thesis
    using False by (simp add: count_list_0_iff)
qed

text \<open>What the block under the button does once every field holds a float.\<close>

lemma submit_all_present:
  assumes "\<forall>x\<in>set (raw_inputs f). x \<noteq> [] \<and> flt x \<noteq> None"
  defines "fs \<equiv> map (\<lambda>x. PyFloat (the (flt x))) (raw_inputs f)"
  defines "msgs \<equiv> map range_message_of
                     (filter (\<lambda>i. outside i (the (flt (raw_inputs f ! i)))) [0 ..< 7])"
  shows "submit flt model f =
         (if msgs \<noteq> [] then Error_box fix_issues # map Warning_item msgs
          else [Spinner, Sleep 1] @
               (case model fs of
                  Inl e \<Rightarrow> [Model_predict fs, Error_box (''Error making prediction: '' @ e)]
                | Inr crop \<Rightarrow>
                    Model_predict fs #
                    (if crop \<noteq> [] then [Success_box (title crop), Echo (raw_inputs f)]
                     else [])))"
proof -
  define vs where "vs = map (\<lambda>x. the (flt x)) (raw_inputs f)"
  have fs: "fs = map PyFloat vs"
    by (simp add: fs_def vs_def)
  have tf: "to_features flt (raw_inputs f) = Some (map PyFloat vs)"
    using to_features_all_present [OF assms(1)] by (simp add: vs_def)
  have "filter (\<lambda>i. outside i (vs ! i)) [0 ..< 7] =
        filter (\<lambda>i. outside i (the (flt (raw_inputs f ! i)))) [0 ..< 7]"
    by (rule filter_cong) (simp_all add: vs_def length_raw_inputs)
  then have rl: "range_loop (zip (map PyFloat vs) ranges) = Inr msgs"
    unfolding msgs_def
    by (subst range_loop_nth) (simp_all add: vs_def length_raw_inputs)
  show ?thesis
    unfolding submit_def tf fs
    by (simp add: validate_inputs_floats rl predict_crop_def split: sum.splits)
qed

lemma submit_missing:
  assumes "\<forall>x\<in>set (raw_inputs f). x \<noteq> [] \<longrightarrow> flt x \<noteq> None"
    and "i < 7" and "raw_inputs f ! i = []"
  shows "submit flt model f =
         Error_box fix_issues #
         map Warning_item
           (map (\<lambda>j. required_message (input_names ! j))
              (filter (\<lambda>j. raw_inputs f ! j = []) [0 ..< 7]))"
proof -
  define fs where "fs = map (\<lambda>x. if x = [] then PyNone else PyFloat (the (flt x))) (raw_inputs f)"
  have tf: "to_features flt (raw_inputs f) = Some fs"
    unfolding fs_def using assms(1) by (rule to_features_Some)
  have len: "length fs = 7"
    by (simp add: fs_def length_raw_inputs)
  have "filter (\<lambda>j. missing (fs ! j)) [0 ..< 7] = filter (\<lambda>j. raw_inputs f ! j = []) [0 ..< 7]"
    by (rule filter_cong) (simp_all add: fs_def length_raw_inputs missing_def)
  then have vi: "validate_inputs fs =
             map (\<lambda>j. required_message (input_names ! j))
               (filter (\<lambda>j. raw_inputs f ! j = []) [0 ..< 7])"
    using len by (simp add: validate_inputs_nth)
  have "i \<in> set (filter (\<lambda>j. raw_inputs f ! j = []) [0 ..< 7])"
    using assms(2,3) by simp
  then have "filter (\<lambda>j. raw_inputs f ! j = []) [0 ..< 7] \<noteq> []"
    by (metis empty_iff list.set(1))
  then have "validate_inputs fs \<noteq> []"
    by (simp add: vi)
  then show ?thesis
    unfolding submit_def tf by (simp add: vi)
qed

lemma valid_numbers_shown_iff:
  "Error_box valid_numbers \<in> set (submit flt model f) \<longleftrightarrow>
   to_features flt (raw_inputs f) = None"
  by (auto simp: submit_def Let_def predict_crop_def valid_numbers_def fix_issues_def
      split: option.splits sum.splits if_splits)

lemma all_less_7:
  "(\<forall>i<7. P i) \<longleftrightarrow> P 0 \<and> P 1 \<and> P 2 \<and> P 3 \<and> P 4 \<and> P 5 \<and> P (6::nat)"
proof -
  have eq: "{..<7::nat} = {0, 1, 2, 3, 4, 5, 6}" by auto
  have "(\<forall>i<7. P i) \<longleftrightarrow> (\<forall>i\<in>{..<7::nat}. P i)" by auto
  also have "\<dots> \<longleftrightarrow> (\<forall>i\<in>{0, 1, 2, 3, 4, 5, 6}. P i)" by (simp only: eq)
  also have "\<dots> \<longleftrightarrow> P 0 \<and> P 1 \<and> P 2 \<and> P 3 \<and> P 4 \<and> P 5 \<and> P 6" by simp
  finally show ?thesis .
qed

lemma submit_predict_reached:
  assumes "Model_predict fs \<in> set (submit flt model f)"
  shows "to_features flt (raw_inputs f) = Some fs \<and> validate_inputs fs = [] \<and>
         range_loop (zip fs ranges) = Inr [] \<and>
         submit flt model f =
           [Spinner, Sleep 1] @
           (case model fs of
              Inl e \<Rightarrow> [Model_predict fs, Error_box (''Error making prediction: '' @ e)]
            | Inr crop \<Rightarrow>
                Model_predict fs #
                (if crop \<noteq> [] then [Success_box (title crop), Echo (raw_inputs f)] else []))"
  using assms
  by (auto simp: submit_def Let_def predict_crop_def
      split: option.splits sum.splits if_splits)

lemma predict_calls_submit: "length (predict_calls (submit flt model f)) \<le> 1"
  by (auto simp: submit_def Let_def predict_crop_def predict_calls_map_Warning_item
      split: option.splits sum.splits)


lemma in_range_not_outside:
  "in_range v min_val max_val \<Longrightarrow> \<not> float_lt_int v min_val \<and> \<not> float_gt_int v max_val"
  by (cases v) auto

lemma not_in_range_outside:
  "v \<noteq> NaN \<Longrightarrow>
   \<not> in_range v min_val max_val \<longleftrightarrow> float_lt_int v min_val \<or> float_gt_int v max_val"
  by (cases v) auto

lemma inside_not_outside: "inside i v \<Longrightarrow> \<not> outside i v"
  by (auto simp: inside_def outside_def dest: in_range_not_outside split: prod.splits)

lemma not_inside_outside: "v \<noteq> NaN \<Longrightarrow> \<not> inside i v \<longleftrightarrow> outside i v"
  using not_in_range_outside [of v]
  by (simp add: inside_def outside_def split: prod.splits)

lemma ranges_ordered: "i < 7 \<Longrightarrow> ranges ! i = (min_val, max_val, name) \<Longrightarrow> min_val \<le> max_val"
proof -
  have "\<forall>i<7. fst (ranges ! i) \<le> fst (snd (ranges ! i))"
    by (simp add: all_less_7 ranges_def)
  then show "i < 7 \<Longrightarrow> ranges ! i = (min_val, max_val, name) \<Longrightarrow> min_val \<le> max_val"
    by fastforce
qed

lemma warnings_submit_all_present:
  assumes "\<forall>x\<in>set (raw_inputs f). x \<noteq> [] \<and> flt x \<noteq> None"
  shows "warnings (submit flt model f) =
         map range_message_of
           (filter (\<lambda>i. outside i (the (flt (raw_inputs f ! i)))) [0 ..< 7])"
  by (simp add: submit_all_present [OF assms] warnings_map_Warning_item del: map_map
      split: sum.splits)

lemma all_inside_all_present:
  assumes "\<forall>i<7. raw_inputs f ! i \<noteq> [] \<and> (\<exists>v. flt (raw_inputs f ! i) = Some v \<and> P i v)"
  shows "\<forall>x\<in>set (raw_inputs f). x \<noteq> [] \<and> flt x \<noteq> None"
proof
  fix x assume "x \<in> set (raw_inputs f)"
  then obtain i where "i < 7" "x = raw_inputs f ! i"
    by (auto simp: in_set_conv_nth length_raw_inputs)
  with assms show "x \<noteq> [] \<and> flt x \<noteq> None" by auto
qed

text \<open>
  What the two checks do establish before the model is called: the button was pressed,
  each of the seven fields holds a float, and no value is below its minimum or above its
  maximum. For a value that is a number this is membership in the range.
\<close>

lemma predict_only_after_checks:
  assumes "Model_predict fs \<in> set (main flt artifact f)"
  shows "button f \<and> fs = map (\<lambda>x. PyFloat (the (flt x))) (raw_inputs f) \<and>
         (\<forall>i<7. raw_inputs f ! i \<noteq> [] \<and>
            (\<exists>v. flt (raw_inputs f ! i) = Some v \<and> \<not> outside i v))"
proof -
  from assms obtain model where b: "button f"
    and m: "Model_predict fs \<in> set (submit flt model f)"
    by (cases artifact) (auto simp: main_def load_model_def split: if_splits option.splits)
  from submit_predict_reached [OF m]
  have tf: "to_features flt (raw_inputs f) = Some fs"
    and vi: "validate_inputs fs = []"
    and rl: "range_loop (zip fs ranges) = Inr []"
    by simp_all
  have fs: "fs = map (\<lambda>x. if x = [] then PyNone else PyFloat (the (flt x))) (raw_inputs f)"
    using tf by (rule to_features_nth)
  have parse: "\<forall>x\<in>set (raw_inputs f). x \<noteq> [] \<longrightarrow> flt x \<noteq> None"
    using tf to_features_None_iff [of flt "raw_inputs f"] by auto
  have "filter (\<lambda>j. missing (fs ! j)) [0 ..< 7] = []"
    using vi by (simp add: validate_inputs_nth fs length_raw_inputs)
  then have no_missing: "\<forall>j\<in>set [0 ..< 7]. \<not> missing (fs ! j)"
    by (simp only: filter_empty_conv)
  have nonempty: "raw_inputs f ! i \<noteq> []" if "i < 7" for i
  proof
    assume "raw_inputs f ! i = []"
    then have "fs ! i = PyNone"
      using that by (simp add: fs length_raw_inputs)
    moreover have "\<not> missing (fs ! i)"
      using no_missing that by simp
    ultimately show False
      by (simp add: missing_def)
  qed
  have present: "\<forall>x\<in>set (raw_inputs f). x \<noteq> [] \<and> flt x \<noteq> None"
  proof
    fix x assume x: "x \<in> set (raw_inputs f)"
    then obtain i where "i < 7" "x = raw_inputs f ! i"
      by (auto simp: in_set_conv_nth length_raw_inputs)
    with nonempty parse x show "x \<noteq> [] \<and> flt x \<noteq> None" by auto
  qed
  define vs where "vs = map (\<lambda>x. the (flt x)) (raw_inputs f)"
  have len: "length vs = 7"
    by (simp add: vs_def length_raw_inputs)
  have fs': "fs = map PyFloat vs"
    using fs present by (simp add: vs_def)
  have "range_loop (zip (map PyFloat vs) ranges) = Inr []"
    using rl by (simp only: fs')
  then have "filter (\<lambda>i. outside i (vs ! i)) [0 ..< 7] = []"
    by (simp add: range_loop_nth [OF len])
  then have "\<forall>i\<in>set [0 ..< 7]. \<not> outside i (vs ! i)"
    by (simp only: filter_empty_conv)
  then have inside: "\<not> outside i (the (flt (raw_inputs f ! i)))" if "i < 7" for i
    using that by (simp add: vs_def length_raw_inputs)
  have "raw_inputs f ! i \<noteq> [] \<and> (\<exists>v. flt (raw_inputs f ! i) = Some v \<and> \<not> outside i v)"
    if "i < 7" for i
  proof -
    have "raw_inputs f ! i \<in> set (raw_inputs f)"
      using that by (simp add: length_raw_inputs)
    with present obtain v where "flt (raw_inputs f ! i) = Some v" by auto
    with inside [OF that] nonempty [OF that] show ?thesis by simp
  qed
  with b fs' show ?thesis by (simp add: vs_def)
qed

lemma predict_within_range_unless_nan:
  assumes "Model_predict fs \<in> set (main flt artifact f)" and "i < 7"
    and "flt (raw_inputs f ! i) = Some v" and "v \<noteq> NaN"
  shows "inside i v"
proof -
  from predict_only_after_checks [OF assms(1)] assms(2)
  obtain w where "flt (raw_inputs f ! i) = Some w" and "\<not> outside i w"
    by blast
  with assms(3) have "\<not> outside i v"
    by simp
  then show ?thesis
    using not_inside_outside [OF assms(4), of i] by blast
qed

subsection \<open>Values of the closed examples\<close>

lemma py_float_90: "py_float ''90'' = Some (Finite 90)"
  by code_simp

lemma py_float_42: "py_float ''42'' = Some (Finite 42)"
  by code_simp

lemma py_float_43: "py_float ''43'' = Some (Finite 43)"
  by code_simp

lemma py_float_20_8:
  "py_float ''20.8'' = Some (Finite (5854679515581645 / 281474976710656))"
  by code_simp

lemma py_float_82: "py_float ''82'' = Some (Finite 82)"
  by code_simp

lemma py_float_6_5: "py_float ''6.5'' = Some (Finite (13 / 2))"
  by code_simp

lemma py_float_202_9:
  "py_float ''202.9'' = Some (Finite (7138909096824013 / 35184372088832))"
  by code_simp

lemma py_float_nan: "py_float ''nan'' = Some NaN"
  by code_simp

lemma py_float_500: "py_float ''500'' = Some (Finite 500)"
  by code_simp

lemma py_float_abc: "py_float ''abc'' = None"
  by code_simp

lemma py_float_empty: "py_float [] = None"
  by code_simp

lemma py_float_minus_1: "py_float ''-1'' = Some (Finite (- 1))"
  by code_simp

lemma py_float_14_5: "py_float ''14.5'' = Some (Finite (29 / 2))"
  by code_simp

lemma py_float_140: "py_float ''140'' = Some (Finite 140)"
  by code_simp

lemmas sample_floats = py_float_90 py_float_42 py_float_43 py_float_20_8 py_float_82
  py_float_6_5 py_float_202_9 py_float_nan py_float_500 py_float_abc py_float_empty
  py_float_minus_1 py_float_14_5 py_float_140

lemma title_rice: "title ''rice'' = ''Rice''"
  by code_simp

section \<open>The claims\<close>

text \<open>
  C1. The claim: the feature vector is passed to \<open>predict_crop\<close> only if all seven fields
  are present and each lies within its range. The range test of the program is
  \<open>value < min_val or value > max_val\<close>, which is false for the not-a-number value, so the
  text \<open>nan\<close> in the nitrogen field passes that test and the not-a-number value reaches the
  model, although it does not lie in \<open>[0, 140]\<close>. The theorem evaluates \<open>main\<close> on that
  submission. By \<open>predict_within_range_unless_nan\<close> above, the not-a-number value is the
  only value outside its range that reaches the model.
\<close>

theorem nan_field_reaches_predict_crop:
  "main py_float (Inr (Some (constant_model ''rice''))) (sample_form\<lparr>txt_n := ''nan''\<rparr>) =
     [Page_header, Load_model_file, Input_form, About_panel, Spinner, Sleep 1,
      Model_predict
        [PyFloat NaN, PyFloat (Finite 42), PyFloat (Finite 43),
         PyFloat (Finite (5854679515581645 / 281474976710656)), PyFloat (Finite 82),
         PyFloat (Finite (13 / 2)), PyFloat (Finite (7138909096824013 / 35184372088832))],
      Success_box ''Rice'',
      Echo [''nan'', ''42'', ''43'', ''20.8'', ''82'', ''6.5'', ''202.9'']]
   \<and> \<not> in_range NaN 0 140"
  by (simp add: main_def load_model_def submit_def raw_inputs_def sample_form_def
      sample_floats validate_inputs_def input_names_def missing_def ranges_def
      predict_crop_def constant_model_def title_rice)

text \<open>
  C4. When some field holds text that is not empty and that \<open>float\<close> rejects, a run with
  the button pressed shows, after the page itself, the single error box asking for valid
  numbers and nothing else: no warning bullet, hence no range message, and no call of the
  model. The error arises in the conversion, before \<open>validate_inputs\<close> and the range loop.
\<close>

theorem non_numeric_text_generic_error:
  assumes "button f" and "\<exists>x\<in>set (raw_inputs f). x \<noteq> [] \<and> flt x = None"
  shows "main flt (Inr (Some model)) f =
         [Page_header, Load_model_file, Input_form, About_panel,
          Error_box ''Please ensure all inputs are valid numbers'']"
proof -
  have "to_features flt (raw_inputs f) = None"
    using assms(2) by (simp add: to_features_None_iff)
  then show ?thesis
    using assms(1) by (simp add: main_def load_model_def submit_def valid_numbers_def)
qed

text \<open>The temperature field holds \<open>abc\<close>; the other six fields are valid.\<close>

theorem non_numeric_text_generic_error_witness:
  "button (sample_form\<lparr>txt_temperature := ''abc''\<rparr>) \<and>
   py_float ''abc'' = None \<and>
   main py_float (Inr (Some (constant_model ''rice''))) (sample_form\<lparr>txt_temperature := ''abc''\<rparr>) =
     [Page_header, Load_model_file, Input_form, About_panel,
      Error_box ''Please ensure all inputs are valid numbers'']"
  using non_numeric_text_generic_error
    [of "sample_form\<lparr>txt_temperature := ''abc''\<rparr>" py_float "constant_model ''rice''"]
  by (simp add: sample_form_def raw_inputs_def py_float_abc)

text \<open>
  C6. For a list of seven values handed to \<open>validate_inputs\<close> and a position whose value
  is missing (\<open>None\<close> or the empty text), the message naming that field as required
  occurs exactly once in the result. The result consists of these messages only, one for
  each missing position, in the order of the fields, so no other message is emitted for
  the field.
\<close>

theorem validate_inputs_required_once:
  assumes "length inputs = 7" and "i < 7" and "missing (inputs ! i)"
  shows "count_list (validate_inputs inputs) (required_message (input_names ! i)) = 1 \<and>
         validate_inputs inputs =
           map (\<lambda>j. required_message (input_names ! j))
             (filter (\<lambda>j. missing (inputs ! j)) [0 ..< 7])"
proof -
  have eq: "validate_inputs inputs =
            map (\<lambda>j. required_message (input_names ! j))
              (filter (\<lambda>j. missing (inputs ! j)) [0 ..< 7])"
    using assms(1) by (simp add: validate_inputs_nth)
  have "count_list (map (\<lambda>j. required_message (input_names ! j))
                      (filter (\<lambda>j. missing (inputs ! j)) [0 ..< 7]))
          (required_message (input_names ! i)) = 1"
    using count_list_map_filter [OF required_message_inj assms(2), of "\<lambda>j. missing (inputs ! j)"]
      assms(3) by simp
  with eq show ?thesis by simp
qed

text \<open>Nitrogen and potassium are missing; the potassium message is counted.\<close>

theorem validate_inputs_required_once_witness:
  "count_list
     (validate_inputs
        [PyNone, PyFloat (Finite 42), PyNone, PyFloat (Finite 20), PyFloat (Finite 82),
         PyFloat (Finite 6), PyFloat (Finite 200)])
     ''Potassium is required'' = 1 \<and>
   validate_inputs
     [PyNone, PyFloat (Finite 42), PyNone, PyFloat (Finite 20), PyFloat (Finite 82),
      PyFloat (Finite 6), PyFloat (Finite 200)] =
     [''Nitrogen is required'', ''Potassium is required'']"
  using validate_inputs_required_once
    [of "[PyNone, PyFloat (Finite 42), PyNone, PyFloat (Finite 20), PyFloat (Finite 82),
          PyFloat (Finite 6), PyFloat (Finite 200)]" 2]
  by (simp add: missing_def input_names_def required_message_def upt_rec)

text \<open>
  C10. When some field holds text that is not empty and that \<open>float\<close> rejects, no run
  shows any warning bullet, whatever the other fields hold, empty fields included, and
  the block under the button shows the error box asking for valid numbers and nothing
  else: the conversion of all seven texts fails before \<open>validate_inputs\<close> is reached.
\<close>

theorem parse_failure_suppresses_field_messages:
  assumes "x \<in> set (raw_inputs f)" and "x \<noteq> []" and "flt x = None"
  shows "warnings (main flt artifact f) = [] \<and>
         submit flt model f = [Error_box ''Please ensure all inputs are valid numbers'']"
proof -
  have none: "to_features flt (raw_inputs f) = None"
    using assms by (auto simp: to_features_None_iff)
  then have s: "submit flt m f = [Error_box valid_numbers]" for m
    by (simp add: submit_def)
  have "warnings (main flt artifact f) = []"
    by (cases artifact) (simp_all add: main_def load_model_def s split: option.splits)
  with s show ?thesis by (simp add: valid_numbers_def)
qed

text \<open>
  Nitrogen and potassium are empty and phosphorus holds \<open>abc\<close>: neither of the two
  messages for a required field is shown.
\<close>

theorem parse_failure_suppresses_field_messages_witness:
  "''abc'' \<in> set (raw_inputs (sample_form\<lparr>txt_n := [], txt_p := ''abc'', txt_k := []\<rparr>)) \<and>
   py_float ''abc'' = None \<and>
   warnings (main py_float (Inr (Some (constant_model ''rice'')))
               (sample_form\<lparr>txt_n := [], txt_p := ''abc'', txt_k := []\<rparr>)) = [] \<and>
   submit py_float (constant_model ''rice'')
     (sample_form\<lparr>txt_n := [], txt_p := ''abc'', txt_k := []\<rparr>) =
     [Error_box ''Please ensure all inputs are valid numbers'']"
  using parse_failure_suppresses_field_messages
    [of "''abc''" "sample_form\<lparr>txt_n := [], txt_p := ''abc'', txt_k := []\<rparr>" py_float
        "Inr (Some (constant_model ''rice''))" "constant_model ''rice''"]
  by (simp add: sample_form_def raw_inputs_def py_float_abc)

text \<open>
  C9. An empty field is a missing value, not non-numeric text. The error box asking for
  valid numbers is shown exactly when some field that is not empty is rejected by
  \<open>float\<close>: an empty field never causes it, whatever \<open>float\<close> would do on the empty text.
  When every field that is not empty is accepted, the conversion succeeds with \<open>None\<close> at
  the position of the empty field, the box asking for valid numbers is not shown, and
  the message naming the field as required is shown exactly once.
\<close>

theorem empty_field_is_missing:
  assumes "i < 7" and "raw_inputs f ! i = []"
  shows "(Error_box valid_numbers \<in> set (submit flt model f) \<longleftrightarrow>
            (\<exists>x\<in>set (raw_inputs f). x \<noteq> [] \<and> flt x = None)) \<and>
         ((\<forall>x\<in>set (raw_inputs f). x \<noteq> [] \<longrightarrow> flt x \<noteq> None) \<longrightarrow>
            (\<exists>fs. to_features flt (raw_inputs f) = Some fs \<and> fs ! i = PyNone) \<and>
            Error_box valid_numbers \<notin> set (submit flt model f) \<and>
            count_list (warnings (submit flt model f))
              (required_message (input_names ! i)) = 1)"
proof (intro conjI impI)
  show "Error_box valid_numbers \<in> set (submit flt model f) \<longleftrightarrow>
        (\<exists>x\<in>set (raw_inputs f). x \<noteq> [] \<and> flt x = None)"
    by (simp add: valid_numbers_shown_iff to_features_None_iff)
next
  assume ok: "\<forall>x\<in>set (raw_inputs f). x \<noteq> [] \<longrightarrow> flt x \<noteq> None"
  have tf: "to_features flt (raw_inputs f) =
            Some (map (\<lambda>x. if x = [] then PyNone else PyFloat (the (flt x))) (raw_inputs f))"
    using ok by (rule to_features_Some)
  show "\<exists>fs. to_features flt (raw_inputs f) = Some fs \<and> fs ! i = PyNone"
    using assms by (simp add: tf length_raw_inputs)
  show "Error_box valid_numbers \<notin> set (submit flt model f)"
    by (simp add: valid_numbers_shown_iff tf)
  have "warnings (submit flt model f) =
        map (\<lambda>j. required_message (input_names ! j))
          (filter (\<lambda>j. raw_inputs f ! j = []) [0 ..< 7])"
    by (simp add: submit_missing [OF ok assms] warnings_map_Warning_item del: map_map)
  then show "count_list (warnings (submit flt model f))
               (required_message (input_names ! i)) = 1"
    using count_list_map_filter [OF required_message_inj assms(1), of "\<lambda>j. raw_inputs f ! j = []"]
      assms(2) by simp
qed

text \<open>
  The humidity field is empty and the other six fields are valid. \<open>py_float\<close> rejects the
  empty text, as \<open>float\<close> does, and is not asked.
\<close>

theorem empty_field_is_missing_witness:
  "raw_inputs (sample_form\<lparr>txt_humidity := []\<rparr>) ! 4 = [] \<and>
   py_float [] = None \<and>
   Error_box valid_numbers \<notin>
     set (submit py_float (constant_model ''rice'') (sample_form\<lparr>txt_humidity := []\<rparr>)) \<and>
   count_list
     (warnings (submit py_float (constant_model ''rice'') (sample_form\<lparr>txt_humidity := []\<rparr>)))
     ''Humidity is required'' = 1"
  using empty_field_is_missing
    [of 4 "sample_form\<lparr>txt_humidity := []\<rparr>" py_float "constant_model ''rice''"]
  by (simp add: sample_form_def raw_inputs_def sample_floats input_names_def
      required_message_def)

text \<open>
  C8. \<open>predict_crop\<close> returns the label exactly when the call of the model returns it, and
  returns \<open>None\<close> exactly when that call raises; in that case it shows the text of the
  exception in an error box. It calls the model once. A run of \<open>main\<close> calls the model at
  most once, and a run in which the call raises ends with that error box: nothing is
  retried and nothing else is shown.
\<close>

theorem predict_crop_label_or_error:
  "(snd (predict_crop model features) = Some crop \<longleftrightarrow> model features = Inr crop) \<and>
   (snd (predict_crop model features) = None \<longleftrightarrow> (\<exists>e. model features = Inl e)) \<and>
   (model features = Inl e \<longrightarrow>
      fst (predict_crop model features) =
        [Model_predict features, Error_box (''Error making prediction: '' @ e)]) \<and>
   predict_calls (fst (predict_crop model features)) = [features] \<and>
   length (predict_calls (main flt artifact f)) \<le> 1 \<and>
   (Model_predict features \<in> set (main flt (Inr (Some model)) f) \<and> model features = Inl e \<longrightarrow>
      main flt (Inr (Some model)) f =
        [Page_header, Load_model_file, Input_form, About_panel, Spinner, Sleep 1,
         Model_predict features, Error_box (''Error making prediction: '' @ e)])"
proof (intro conjI impI)
  show "snd (predict_crop model features) = Some crop \<longleftrightarrow> model features = Inr crop"
    by (simp add: predict_crop_def split: sum.splits)
  show "snd (predict_crop model features) = None \<longleftrightarrow> (\<exists>e. model features = Inl e)"
    by (simp add: predict_crop_def split: sum.splits)
  show "predict_calls (fst (predict_crop model features)) = [features]"
    by (simp add: predict_crop_def split: sum.splits)
  show "length (predict_calls (main flt artifact f)) \<le> 1"
    using predict_calls_submit [of flt _ f]
    by (cases artifact) (simp_all add: main_def load_model_def split: option.splits)
next
  assume "model features = Inl e"
  then show "fst (predict_crop model features) =
             [Model_predict features, Error_box (''Error making prediction: '' @ e)]"
    by (simp add: predict_crop_def)
next
  assume a: "Model_predict features \<in> set (main flt (Inr (Some model)) f) \<and> model features = Inl e"
  then have b: "button f" and "Model_predict features \<in> set (submit flt model f)"
    by (auto simp: main_def load_model_def split: if_splits)
  then show "main flt (Inr (Some model)) f =
        [Page_header, Load_model_file, Input_form, About_panel, Spinner, Sleep 1,
         Model_predict features, Error_box (''Error making prediction: '' @ e)]"
    using a submit_predict_reached [of features flt model f]
    by (simp add: main_def load_model_def)
qed

text \<open>
  A model that answers \<open>rice\<close>, a model that raises with the text \<open>boom\<close>, and a run of
  \<open>main\<close> on the valid example with the model that raises.
\<close>

theorem predict_crop_label_or_error_witness:
  "snd (predict_crop (constant_model ''rice'') [PyFloat (Finite 90)]) = Some ''rice'' \<and>
   snd (predict_crop (failing_model ''boom'') [PyFloat (Finite 90)]) = None \<and>
   fst (predict_crop (failing_model ''boom'') [PyFloat (Finite 90)]) =
     [Model_predict [PyFloat (Finite 90)], Error_box ''Error making prediction: boom''] \<and>
   main py_float (Inr (Some (failing_model ''boom''))) sample_form =
     [Page_header, Load_model_file, Input_form, About_panel, Spinner, Sleep 1,
      Model_predict
        [PyFloat (Finite 90), PyFloat (Finite 42), PyFloat (Finite 43),
         PyFloat (Finite (5854679515581645 / 281474976710656)), PyFloat (Finite 82),
         PyFloat (Finite (13 / 2)), PyFloat (Finite (7138909096824013 / 35184372088832))],
      Error_box ''Error making prediction: boom'']"
  using predict_crop_label_or_error
    [of "constant_model ''rice''" "[PyFloat (Finite 90)]" "''rice''" "''boom''" py_float
        "Inl ''boom''" sample_form]
    predict_crop_label_or_error
    [of "failing_model ''boom''" "[PyFloat (Finite 90)]" "''rice''" "''boom''" py_float
        "Inl ''boom''" sample_form]
    predict_crop_label_or_error
    [of "failing_model ''boom''"
        "[PyFloat (Finite 90), PyFloat (Finite 42), PyFloat (Finite 43),
          PyFloat (Finite (5854679515581645 / 281474976710656)), PyFloat (Finite 82),
          PyFloat (Finite (13 / 2)), PyFloat (Finite (7138909096824013 / 35184372088832))]"
        "''rice''" "''boom''" py_float "Inl ''boom''" sample_form]
  by (simp add: constant_model_def failing_model_def main_def load_model_def submit_def
      raw_inputs_def sample_form_def sample_floats validate_inputs_def input_names_def
      missing_def ranges_def predict_crop_def)




text \<open>
  C5. In a run with the button pressed in which every field holds a float, take the
  field at position \<open>i\<close>, its value \<open>v\<close> and its entry \<open>(min_val, max_val, name)\<close> of the
  table of ranges. If \<open>v\<close> is below \<open>min_val\<close> or above \<open>max_val\<close>, the message that \<open>name\<close>
  must be between \<open>min_val\<close> and \<open>max_val\<close> is shown exactly once; if \<open>v\<close> equals \<open>min_val\<close> or
  \<open>max_val\<close>, it is not shown. The last part lists the seven messages of the table.
\<close>

theorem range_message_exactly_once:
  assumes "button f"
    and "\<forall>x\<in>set (raw_inputs f). x \<noteq> [] \<and> flt x \<noteq> None"
    and "i < 7"
    and "flt (raw_inputs f ! i) = Some v"
    and "ranges ! i = (min_val, max_val, name)"
  shows "(float_lt_int v min_val \<or> float_gt_int v max_val \<longrightarrow>
            count_list (warnings (main flt (Inr (Some model)) f))
              (range_message name min_val max_val) = 1) \<and>
         (v = Finite (of_int min_val) \<or> v = Finite (of_int max_val) \<longrightarrow>
            count_list (warnings (main flt (Inr (Some model)) f))
              (range_message name min_val max_val) = 0) \<and>
         map (\<lambda>(min_val, max_val, name). range_message name min_val max_val) ranges =
           [''Nitrogen must be between 0 and 140'', ''Phosphorus must be between 0 and 140'',
            ''Potassium must be between 0 and 200'', ''Temperature must be between 0 and 50'',
            ''Humidity must be between 0 and 100'', ''pH must be between 0 and 14'',
            ''Rainfall must be between 0 and 300'']"
proof -
  have w: "warnings (main flt (Inr (Some model)) f) =
           map range_message_of
             (filter (\<lambda>j. outside j (the (flt (raw_inputs f ! j)))) [0 ..< 7])"
    using assms(1) warnings_submit_all_present [OF assms(2)]
    by (simp add: main_def load_model_def)
  have m: "range_message_of i = range_message name min_val max_val"
    by (simp add: range_message_of_def assms(5))
  have o: "outside i (the (flt (raw_inputs f ! i))) \<longleftrightarrow>
           float_lt_int v min_val \<or> float_gt_int v max_val"
    by (simp add: outside_def assms(4,5))
  have c: "count_list (warnings (main flt (Inr (Some model)) f)) (range_message name min_val max_val) =
           (if float_lt_int v min_val \<or> float_gt_int v max_val then 1 else 0)"
    using count_list_map_filter [OF range_message_of_inj assms(3),
        of "\<lambda>j. outside j (the (flt (raw_inputs f ! j)))"]
    by (simp only: w m o)
  have le: "min_val \<le> max_val"
    using assms(3,5) by (rule ranges_ordered)
  have b: "v = Finite (of_int min_val) \<or> v = Finite (of_int max_val) \<Longrightarrow>
           \<not> (float_lt_int v min_val \<or> float_gt_int v max_val)"
    using le by auto
  show ?thesis
    using c b by (simp only: range_messages) auto
qed

text \<open>Phosphorus is 500, above its maximum of 140; the other six fields are valid.\<close>

theorem range_message_exactly_once_witness:
  "button (sample_form\<lparr>txt_p := ''500''\<rparr>) \<and>
   py_float (raw_inputs (sample_form\<lparr>txt_p := ''500''\<rparr>) ! 1) = Some (Finite 500) \<and>
   ranges ! 1 = (0, 140, ''Phosphorus'') \<and>
   float_gt_int (Finite 500) 140 \<and>
   count_list
     (warnings (main py_float (Inr (Some (constant_model ''rice''))) (sample_form\<lparr>txt_p := ''500''\<rparr>)))
     ''Phosphorus must be between 0 and 140'' = 1"
  using range_message_exactly_once
    [of "sample_form\<lparr>txt_p := ''500''\<rparr>" py_float 1 "Finite 500" 0 140 "''Phosphorus''"
        "constant_model ''rice''"]
  by (simp add: sample_form_def raw_inputs_def sample_floats ranges_def range_message_def
      str_int_def decimal.simps digit_char_def)

text \<open>
  C7. The claim: whenever the prediction call succeeds, the label is rendered and the
  inputs are echoed. \<open>if prediction:\<close> is false for the empty text, so on the valid
  example a model that answers with the empty label is called, does not raise, and the
  run ends after the call: no success box and no echo.
\<close>

theorem empty_label_is_not_rendered:
  "main py_float (Inr (Some (constant_model []))) sample_form =
     [Page_header, Load_model_file, Input_form, About_panel, Spinner, Sleep 1,
      Model_predict
        [PyFloat (Finite 90), PyFloat (Finite 42), PyFloat (Finite 43),
         PyFloat (Finite (5854679515581645 / 281474976710656)), PyFloat (Finite 82),
         PyFloat (Finite (13 / 2)), PyFloat (Finite (7138909096824013 / 35184372088832))]] \<and>
   constant_model []
     [PyFloat (Finite 90), PyFloat (Finite 42), PyFloat (Finite 43),
      PyFloat (Finite (5854679515581645 / 281474976710656)), PyFloat (Finite 82),
      PyFloat (Finite (13 / 2)), PyFloat (Finite (7138909096824013 / 35184372088832))] = Inr []"
  by (simp add: main_def load_model_def submit_def raw_inputs_def sample_form_def
      sample_floats validate_inputs_def input_names_def missing_def ranges_def
      predict_crop_def constant_model_def)

text \<open>
  C7, as amended. In a run with the model loaded and the button pressed in which each of
  the seven fields holds a float within its range, the model is called with the seven
  floats in the order of the fields; and whenever that call returns a label that is not
  the empty text, the run shows the label in title case and then the seven texts typed by
  the user, and nothing after them.
\<close>

theorem valid_submission_is_predicted:
  assumes "button f"
    and "\<forall>i<7. raw_inputs f ! i \<noteq> [] \<and>
           (\<exists>v. flt (raw_inputs f ! i) = Some v \<and> inside i v)"
  shows "Model_predict (map (\<lambda>x. PyFloat (the (flt x))) (raw_inputs f)) \<in>
           set (main flt (Inr (Some model)) f) \<and>
         (\<forall>crop. model (map (\<lambda>x. PyFloat (the (flt x))) (raw_inputs f)) = Inr crop \<and>
                 crop \<noteq> [] \<longrightarrow>
            main flt (Inr (Some model)) f =
              [Page_header, Load_model_file, Input_form, About_panel, Spinner, Sleep 1,
               Model_predict (map (\<lambda>x. PyFloat (the (flt x))) (raw_inputs f)),
               Success_box (title crop), Echo (raw_inputs f)])"
proof -
  have present: "\<forall>x\<in>set (raw_inputs f). x \<noteq> [] \<and> flt x \<noteq> None"
    using assms(2) by (rule all_inside_all_present)
  have "\<not> outside i (the (flt (raw_inputs f ! i)))" if "i \<in> set [0 ..< 7]" for i
  proof -
    from that have "i < 7" by simp
    with assms(2) obtain v where "flt (raw_inputs f ! i) = Some v" and "inside i v"
      by blast
    then show ?thesis
      by (simp add: inside_not_outside)
  qed
  then have none: "filter (\<lambda>i. outside i (the (flt (raw_inputs f ! i)))) [0 ..< 7] = []"
    by (simp only: filter_empty_conv) blast
  show ?thesis
    using assms(1)
    by (auto simp: main_def load_model_def submit_all_present [OF present] none
        split: sum.splits)
qed

text \<open>The example of the specification, with a model that answers \<open>rice\<close>.\<close>

theorem valid_submission_is_predicted_witness:
  "button sample_form \<and>
   raw_inputs sample_form = [''90'', ''42'', ''43'', ''20.8'', ''82'', ''6.5'', ''202.9''] \<and>
   inside 3 (Finite (5854679515581645 / 281474976710656)) \<and>
   main py_float (Inr (Some (constant_model ''rice''))) sample_form =
     [Page_header, Load_model_file, Input_form, About_panel, Spinner, Sleep 1,
      Model_predict
        [PyFloat (Finite 90), PyFloat (Finite 42), PyFloat (Finite 43),
         PyFloat (Finite (5854679515581645 / 281474976710656)), PyFloat (Finite 82),
         PyFloat (Finite (13 / 2)), PyFloat (Finite (7138909096824013 / 35184372088832))],
      Success_box ''Rice'',
      Echo [''90'', ''42'', ''43'', ''20.8'', ''82'', ''6.5'', ''202.9'']]"
  using valid_submission_is_predicted [of sample_form py_float "constant_model ''rice''"]
  by (simp add: all_less_7 sample_form_def raw_inputs_def sample_floats inside_def ranges_def
      constant_model_def title_rice)

text \<open>
  C2. The claim: a submission with one missing field and another field out of range
  reports both. With nitrogen empty and phosphorus 500, only the message for nitrogen is
  shown: the range loop runs only when \<open>validate_inputs\<close> returns no message.
\<close>

theorem missing_hides_out_of_range:
  "submit py_float (constant_model ''rice'') (sample_form\<lparr>txt_n := [], txt_p := ''500''\<rparr>) =
     [Error_box ''Please fix the following issues:'', Warning_item ''Nitrogen is required''] \<and>
   py_float ''500'' = Some (Finite 500) \<and>
   \<not> in_range (Finite 500) 0 140"
  by (simp add: submit_def raw_inputs_def sample_form_def sample_floats validate_inputs_def
      input_names_def missing_def required_message_def fix_issues_def)

text \<open>
  C2, as amended. Take a submission in which every field that is not empty holds a float
  that is a number. If some field is empty, the block under the button shows one message
  per empty field, naming it as required, in the order of the fields, and no range
  message. If no field is empty and some value lies outside its range, it shows one
  message per such field, in the order of the fields. Otherwise it hands the seven floats
  to the model, once.
\<close>

theorem validation_outcome:
  assumes "\<forall>x\<in>set (raw_inputs f). x \<noteq> [] \<longrightarrow> flt x \<noteq> None \<and> flt x \<noteq> Some NaN"
  shows "((\<exists>i<7. raw_inputs f ! i = []) \<longrightarrow>
            submit flt model f =
              Error_box fix_issues #
              map Warning_item
                (map (\<lambda>i. required_message (input_names ! i))
                   (filter (\<lambda>i. raw_inputs f ! i = []) [0 ..< 7]))) \<and>
         ((\<forall>i<7. raw_inputs f ! i \<noteq> []) \<longrightarrow>
            (if filter (\<lambda>i. \<not> inside i (the (flt (raw_inputs f ! i)))) [0 ..< 7] \<noteq> [] then
               submit flt model f =
                 Error_box fix_issues #
                 map Warning_item
                   (map range_message_of
                      (filter (\<lambda>i. \<not> inside i (the (flt (raw_inputs f ! i)))) [0 ..< 7]))
             else
               predict_calls (submit flt model f) =
                 [map (\<lambda>x. PyFloat (the (flt x))) (raw_inputs f)]))"
proof (intro conjI impI)
  assume "\<exists>i<7. raw_inputs f ! i = []"
  then obtain i where i: "i < 7" "raw_inputs f ! i = []" by blast
  have "\<forall>x\<in>set (raw_inputs f). x \<noteq> [] \<longrightarrow> flt x \<noteq> None"
    using assms by blast
  then show "submit flt model f =
              Error_box fix_issues #
              map Warning_item
                (map (\<lambda>i. required_message (input_names ! i))
                   (filter (\<lambda>i. raw_inputs f ! i = []) [0 ..< 7]))"
    using i by (rule submit_missing)
next
  assume all: "\<forall>i<7. raw_inputs f ! i \<noteq> []"
  have present: "\<forall>x\<in>set (raw_inputs f). x \<noteq> [] \<and> flt x \<noteq> None"
  proof
    fix x assume x: "x \<in> set (raw_inputs f)"
    then obtain i where "i < 7" "x = raw_inputs f ! i"
      by (auto simp: in_set_conv_nth length_raw_inputs)
    with all x assms show "x \<noteq> [] \<and> flt x \<noteq> None" by auto
  qed
  have "(\<not> inside i (the (flt (raw_inputs f ! i)))) = outside i (the (flt (raw_inputs f ! i)))"
    if "i \<in> set [0 ..< 7]" for i
  proof -
    from that have "i < 7" by simp
    then have "raw_inputs f ! i \<in> set (raw_inputs f)"
      by (simp add: length_raw_inputs)
    with assms all \<open>i < 7\<close> obtain v where "flt (raw_inputs f ! i) = Some v" "v \<noteq> NaN"
      by (metis not_None_eq)
    then show ?thesis
      by (simp add: not_inside_outside)
  qed
  then have eq: "filter (\<lambda>i. \<not> inside i (the (flt (raw_inputs f ! i)))) [0 ..< 7] =
                 filter (\<lambda>i. outside i (the (flt (raw_inputs f ! i)))) [0 ..< 7]"
    by (rule filter_cong [OF refl])
  show "if filter (\<lambda>i. \<not> inside i (the (flt (raw_inputs f ! i)))) [0 ..< 7] \<noteq> [] then
               submit flt model f =
                 Error_box fix_issues #
                 map Warning_item
                   (map range_message_of
                      (filter (\<lambda>i. \<not> inside i (the (flt (raw_inputs f ! i)))) [0 ..< 7]))
             else
               predict_calls (submit flt model f) =
                 [map (\<lambda>x. PyFloat (the (flt x))) (raw_inputs f)]"
    unfolding eq
    by (simp add: submit_all_present [OF present] del: map_map split: sum.splits)
qed

text \<open>
  Nitrogen is \<open>-1\<close> and pH is \<open>14.5\<close>, both outside their ranges; no field is empty.
\<close>

theorem validation_outcome_witness:
  "raw_inputs (sample_form\<lparr>txt_n := ''-1'', txt_ph := ''14.5''\<rparr>) =
     [''-1'', ''42'', ''43'', ''20.8'', ''82'', ''14.5'', ''202.9''] \<and>
   py_float ''-1'' = Some (Finite (- 1)) \<and>
   py_float ''14.5'' = Some (Finite (29 / 2)) \<and>
   submit py_float (constant_model ''rice'') (sample_form\<lparr>txt_n := ''-1'', txt_ph := ''14.5''\<rparr>) =
     [Error_box ''Please fix the following issues:'',
      Warning_item ''Nitrogen must be between 0 and 140'',
      Warning_item ''pH must be between 0 and 14'']"
  using validation_outcome
    [of "sample_form\<lparr>txt_n := ''-1'', txt_ph := ''14.5''\<rparr>" py_float "constant_model ''rice''"]
    range_message_of_table
  by (simp add: all_less_7 sample_form_def raw_inputs_def sample_floats inside_def ranges_def
      fix_issues_def upt_rec)

end
